theory Spec2Isabelle
  imports Main "HOL-Library.Word" "HOL-Library.Mapping" "HOL-Library.AList_Mapping"
begin

section \<open>Data model\<close>

text \<open>
  The cache of gocache.go is a Go struct whose fields point to heap objects: entries
  (linked to each other by next/previous pointers) and the elements of a
  container/list that hold the frequency items. Pointers are modelled as natural
  numbers into two stores, \<open>heap\<close> for the entries and \<open>items\<close> for the list
  elements; a nil pointer is \<open>None\<close>. Allocation takes the next unused number.
\<close>

type_synonym entry_ref = nat
type_synonym elem_ref = nat

datatype EvictionPolicy = FirstInFirstOut | LeastRecentlyUsed | LeastFrequentUsed

text \<open>A value of type interface: the nil interface, a typed nil pointer, or anything else.\<close>

datatype 'a val = Nil | NilPointer | Val 'a

text \<open>A nil pointer dereference is the only run-time panic the modelled code can raise.\<close>

datatype panic = NilPointerDereference

datatype cache_error = ErrKeyDoesNotExist | ErrKeyHasNoExpiration | ErrJanitorAlreadyRunning

definition NoMaxSize :: int where [simp]: "NoMaxSize = 0"
definition NoMaxMemoryUsage :: int where [simp]: "NoMaxMemoryUsage = 0"
definition DefaultMaxSize :: int where [simp]: "DefaultMaxSize = 100000"
definition NoExpiration :: int where [simp]: "NoExpiration = - 1"

text \<open>
  The struct Entry is declared in a file that is not among the sources; its fields are
  the ones the sources read and write. A new entry has Go's zero values in the fields
  the composite literal of SetWithTTL leaves out.
\<close>

record 'a Entry =
  Key :: string
  Value :: "'a val"
  RelevantTimestamp :: int
  Expiration :: int
  next_entry :: "entry_ref option"
  previous :: "entry_ref option"
  frequencyParent :: "elem_ref option"

record FrequencyItem =
  Entries :: "entry_ref set"
  Freq :: int

text \<open>The counters are uint64 in the source.\<close>

record Statistics =
  EvictedKeys :: "64 word"
  ExpiredKeys :: "64 word"
  Hits :: "64 word"
  Misses :: "64 word"

text \<open>
  \<open>freqs\<close> is the container/list of the source: the elements that are linked in the
  list, front to back. An element that was removed keeps its value in \<open>items\<close> but is
  no longer a member of \<open>freqs\<close>.
\<close>

record 'a Cache =
  maxSize :: int
  maxMemoryUsage :: int
  evictionPolicy :: EvictionPolicy
  stats :: Statistics
  entries :: "(string, entry_ref) mapping"
  head :: "entry_ref option"
  tail :: "entry_ref option"
  freqs :: "elem_ref list"
  memoryUsage :: int
  forceNilInterfaceOnNilPointer :: bool
  heap :: "entry_ref \<Rightarrow> 'a Entry"
  items :: "elem_ref \<Rightarrow> FrequencyItem"
  nextRef :: entry_ref
  nextElem :: elem_ref

section \<open>Time\<close>

text \<open>
  Instants are Unix nanoseconds and durations are nanoseconds, both int64 in the source.
  \<open>wrap64\<close> is the two's complement wrap-around of Go's integer arithmetic.
\<close>

definition wrap64 :: "int \<Rightarrow> int" where
  "wrap64 x = (x + 2 ^ 63) mod 2 ^ 64 - 2 ^ 63"

text \<open>time.Until(time.Unix(0, e)): the difference of two instants saturates at the
  bounds of a Duration.\<close>

definition time_Until :: "int \<Rightarrow> int \<Rightarrow> int" where
  "time_Until now e = max (- (2 ^ 63)) (min (2 ^ 63 - 1) (e - now))"

text \<open>time.Now().Add(ttl).UnixNano()\<close>

definition expiration_after :: "int \<Rightarrow> int \<Rightarrow> int" where
  "expiration_after now ttl = wrap64 (now + ttl)"

section \<open>Entry methods\<close>

text \<open>
  Modelled from the spec: Entry.Expired is not among the sources. The spec says that
  an entry whose expiration is not the never sentinel behaves as absent when it is read
  after that instant.
\<close>

definition Expired :: "int \<Rightarrow> 'a Entry \<Rightarrow> bool" where
  "Expired now e \<longleftrightarrow> Expiration e \<noteq> NoExpiration \<and> Expiration e < now"

text \<open>
  Modelled from the spec: Entry.Accessed is not among the sources. The relevant
  timestamp of the spec is the instant of the last update; the comment of GetAll says
  that Get under LeastRecentlyUsed updates the last access timestamp.
\<close>

definition Accessed :: "int \<Rightarrow> 'a Entry \<Rightarrow> 'a Entry" where
  "Accessed now e = e\<lparr>RelevantTimestamp := now\<rparr>"

text \<open>
  Modelled from the spec: Entry.SizeInBytes is not among the sources. The estimate is a
  function of the key and of the value; the estimator \<open>sz\<close> itself is a parameter.
\<close>

definition SizeInBytes :: "(string \<Rightarrow> 'a val \<Rightarrow> int) \<Rightarrow> 'a Entry \<Rightarrow> int" where
  "SizeInBytes sz e = sz (Key e) (Value e)"

section \<open>container/list\<close>

definition Front :: "elem_ref list \<Rightarrow> elem_ref option" where
  "Front l = (case l of [] \<Rightarrow> None | x # _ \<Rightarrow> Some x)"

text \<open>Element.Next: nil for the last element and for an element that is in no list.\<close>

fun Next_elem :: "elem_ref list \<Rightarrow> elem_ref \<Rightarrow> elem_ref option" where
  "Next_elem [] e = None"
| "Next_elem [x] e = None"
| "Next_elem (x # y # l) e = (if x = e then Some y else Next_elem (y # l) e)"

fun insert_after :: "elem_ref \<Rightarrow> elem_ref \<Rightarrow> elem_ref list \<Rightarrow> elem_ref list" where
  "insert_after new mark [] = []"
| "insert_after new mark (x # l) =
     (if x = mark then x # new # l else x # insert_after new mark l)"

text \<open>List.PushFront allocates a new element for the value and links it first.\<close>

definition PushFront :: "FrequencyItem \<Rightarrow> 'a Cache \<Rightarrow> elem_ref option \<times> 'a Cache" where
  "PushFront v c =
     (let e = nextElem c
      in (Some e, c\<lparr>items := (items c)(e := v), nextElem := e + 1, freqs := e # freqs c\<rparr>))"

text \<open>List.InsertAfter returns nil, and changes nothing, when the mark is not an
  element of the list.\<close>

definition InsertAfter :: "FrequencyItem \<Rightarrow> elem_ref \<Rightarrow> 'a Cache \<Rightarrow> elem_ref option \<times> 'a Cache" where
  "InsertAfter v mark c =
     (if mark \<notin> set (freqs c) then (None, c)
      else let e = nextElem c
           in (Some e, c\<lparr>items := (items c)(e := v), nextElem := e + 1,
                          freqs := insert_after e mark (freqs c)\<rparr>))"

text \<open>List.Remove unlinks the element if it is an element of the list.\<close>

definition Remove :: "elem_ref \<Rightarrow> 'a Cache \<Rightarrow> 'a Cache" where
  "Remove e c = c\<lparr>freqs := removeAll e (freqs c)\<rparr>"

section \<open>frequency.go\<close>

text \<open>removeEntryFromFrequencyList, for a list element that is not nil.\<close>

definition removeEntryFromFrequencyList :: "elem_ref \<Rightarrow> entry_ref \<Rightarrow> 'a Cache \<Rightarrow> 'a Cache" where
  "removeEntryFromFrequencyList listItem item c =
     (let c1 = c\<lparr>items := (items c)(listItem :=
                  (items c listItem)\<lparr>Entries := Entries (items c listItem) - {item}\<rparr>)\<rparr>
      in if Entries (items c1 listItem) = {} then Remove listItem c1 else c1)"

definition incrementEntryFrequency :: "entry_ref \<Rightarrow> 'a Cache \<Rightarrow> panic + 'a Cache" where
  "incrementEntryFrequency entry c =
     (let currentFrequency = frequencyParent (heap c entry);
          nextFrequencyAmount =
            (case currentFrequency of None \<Rightarrow> 1 | Some cur \<Rightarrow> Freq (items c cur) + 1);
          nextFrequency =
            (case currentFrequency of None \<Rightarrow> Front (freqs c)
             | Some cur \<Rightarrow> Next_elem (freqs c) cur);
          (nextFrequency', c1) =
            (if (case nextFrequency of None \<Rightarrow> True
                 | Some nf \<Rightarrow> Freq (items c nf) \<noteq> nextFrequencyAmount)
             then let newFrequencyItem = \<lparr>Entries = {}, Freq = nextFrequencyAmount\<rparr>
                  in (case currentFrequency of None \<Rightarrow> PushFront newFrequencyItem c
                      | Some cur \<Rightarrow> InsertAfter newFrequencyItem cur c)
             else (nextFrequency, c))
      in case nextFrequency' of
           None \<Rightarrow> Inl NilPointerDereference
         | Some nf \<Rightarrow>
             let c2 = c1\<lparr>heap := (heap c1)(entry :=
                          (heap c1 entry)\<lparr>frequencyParent := Some nf\<rparr>)\<rparr>;
                 c3 = c2\<lparr>items := (items c2)(nf :=
                          (items c2 nf)\<lparr>Entries := insert entry (Entries (items c2 nf))\<rparr>)\<rparr>
             in Inr (case currentFrequency of None \<Rightarrow> c3
                     | Some cur \<Rightarrow> removeEntryFromFrequencyList cur entry c3))"

section \<open>eviction.go\<close>

definition removeExistingEntryReferences :: "entry_ref \<Rightarrow> 'a Cache \<Rightarrow> 'a Cache" where
  "removeExistingEntryReferences entry c =
     (let c1 = (if tail c = Some entry \<and> head c = Some entry
                then c\<lparr>tail := None, head := None\<rparr>
                else if tail c = Some entry then c\<lparr>tail := previous (heap c entry)\<rparr>
                else if head c = Some entry then c\<lparr>head := next_entry (heap c entry)\<rparr>
                else c);
          c2 = (case previous (heap c1 entry) of None \<Rightarrow> c1
                | Some p \<Rightarrow> c1\<lparr>heap := (heap c1)(p :=
                     (heap c1 p)\<lparr>next_entry := next_entry (heap c1 entry)\<rparr>)\<rparr>);
          c3 = (case next_entry (heap c2 entry) of None \<Rightarrow> c2
                | Some n \<Rightarrow> c2\<lparr>heap := (heap c2)(n :=
                     (heap c2 n)\<lparr>previous := previous (heap c2 entry)\<rparr>)\<rparr>)
      in c3\<lparr>heap := (heap c3)(entry :=
              (heap c3 entry)\<lparr>next_entry := None, previous := None\<rparr>)\<rparr>)"

definition moveExistingEntryToHead :: "entry_ref \<Rightarrow> 'a Cache \<Rightarrow> 'a Cache" where
  "moveExistingEntryToHead entry c =
     (let c1 = (if \<not> (Some entry = head c \<and> Some entry = tail c)
                then removeExistingEntryReferences entry c else c)
      in if Some entry \<noteq> head c1
         then let c2 = c1\<lparr>heap := (heap c1)(entry :=
                         (heap c1 entry)\<lparr>next_entry := head c1, previous := None\<rparr>)\<rparr>;
                  c3 = (case head c2 of None \<Rightarrow> c2
                        | Some h \<Rightarrow> c2\<lparr>heap := (heap c2)(h :=
                            (heap c2 h)\<lparr>previous := Some entry\<rparr>)\<rparr>)
              in c3\<lparr>head := Some entry\<rparr>
         else c1)"

text \<open>The body of the range loop of evict under LeastFrequentUsed, for one entry of
  the front frequency item.\<close>

definition evict_entry ::
  "(string \<Rightarrow> 'a val \<Rightarrow> int) \<Rightarrow> elem_ref \<Rightarrow> entry_ref \<Rightarrow> 'a Cache \<Rightarrow> 'a Cache" where
  "evict_entry sz item entry c =
     (let c1 = removeExistingEntryReferences entry c;
          c2 = c1\<lparr>entries := Mapping.delete (Key (heap c1 entry)) (entries c1)\<rparr>;
          c3 = removeEntryFromFrequencyList item entry c2;
          c4 = c3\<lparr>stats := (stats c3)\<lparr>EvictedKeys := EvictedKeys (stats c3) + 1\<rparr>\<rparr>
      in if maxMemoryUsage c4 \<noteq> NoMaxMemoryUsage
         then c4\<lparr>memoryUsage := memoryUsage c4 - SizeInBytes sz (heap c4 entry)\<rparr>
         else c4)"

text \<open>
  Go ranges over the entries of the front frequency item in an unspecified order; the
  order is the parameter \<open>ord\<close>, which lists the members of a set. Each pass deletes
  only the entry it visits, so every member is visited once.
\<close>

definition evict ::
  "(entry_ref set \<Rightarrow> entry_ref list) \<Rightarrow> (string \<Rightarrow> 'a val \<Rightarrow> int) \<Rightarrow> 'a Cache \<Rightarrow> 'a Cache" where
  "evict ord sz c =
     (if tail c = None \<or> Mapping.size (entries c) = 0 then c
      else if evictionPolicy c = LeastFrequentUsed
      then (case Front (freqs c) of None \<Rightarrow> c
            | Some item \<Rightarrow> fold (evict_entry sz item) (ord (Entries (items c item))) c)
      else (case tail c of None \<Rightarrow> c
            | Some oldTail \<Rightarrow>
                let c1 = removeExistingEntryReferences oldTail c;
                    c2 = c1\<lparr>entries := Mapping.delete (Key (heap c1 oldTail)) (entries c1)\<rparr>;
                    c3 = (if maxMemoryUsage c2 \<noteq> NoMaxMemoryUsage
                          then c2\<lparr>memoryUsage :=
                                 memoryUsage c2 - SizeInBytes sz (heap c2 oldTail)\<rparr>
                          else c2)
                in c3\<lparr>stats := (stats c3)\<lparr>EvictedKeys := EvictedKeys (stats c3) + 1\<rparr>\<rparr>))"

section \<open>The cache operations\<close>

text \<open>
  Every public operation but Expire runs between Lock and Unlock (or RLock and RUnlock)
  of the mutex; the functions below give the effect of one operation running alone.
  \<open>now\<close> is the reading of the clock during the operation.
\<close>

definition get :: "string \<Rightarrow> 'a Cache \<Rightarrow> entry_ref option" where
  "get key c = Mapping.lookup (entries c) key"

text \<open>
  delete calls removeEntryFromFrequencyList on the frequencyParent of the entry, which
  dereferences it: a nil frequencyParent panics.
\<close>

definition delete ::
  "(string \<Rightarrow> 'a val \<Rightarrow> int) \<Rightarrow> string \<Rightarrow> 'a Cache \<Rightarrow> panic + bool \<times> 'a Cache" where
  "delete sz key c =
     (case Mapping.lookup (entries c) key of
        None \<Rightarrow> Inr (False, c)
      | Some entry \<Rightarrow>
          let c1 = (if maxMemoryUsage c \<noteq> NoMaxMemoryUsage
                    then c\<lparr>memoryUsage := memoryUsage c - SizeInBytes sz (heap c entry)\<rparr>
                    else c)
          in if evictionPolicy c1 = LeastFrequentUsed
             then (case frequencyParent (heap c1 entry) of
                     None \<Rightarrow> Inl NilPointerDereference
                   | Some listItem \<Rightarrow>
                       let c2 = removeEntryFromFrequencyList listItem entry c1;
                           c3 = removeExistingEntryReferences entry c2
                       in Inr (True, c3\<lparr>entries := Mapping.delete key (entries c3)\<rparr>))
             else let c3 = removeExistingEntryReferences entry c1
                  in Inr (True, c3\<lparr>entries := Mapping.delete key (entries c3)\<rparr>))"

text \<open>
  The loop of SetWithTTL that evicts while the memory usage is above the bound and
  entries remain. It need not terminate: \<open>None\<close> is the run that never leaves the loop.
\<close>

partial_function (option) evict_while_above ::
  "(entry_ref set \<Rightarrow> entry_ref list) \<Rightarrow> (string \<Rightarrow> 'a val \<Rightarrow> int) \<Rightarrow> 'a Cache
     \<Rightarrow> 'a Cache option" where
  "evict_while_above ord sz c =
     (if memoryUsage c > maxMemoryUsage c \<and> Mapping.size (entries c) > 0
      then evict_while_above ord sz (evict ord sz c)
      else Some c)"

declare evict_while_above.simps [code]

text \<open>The assignment of SetWithTTL to the expiration of the entry; Expire makes the
  same assignment.\<close>

definition setExpiration :: "int \<Rightarrow> entry_ref \<Rightarrow> int \<Rightarrow> 'a Cache \<Rightarrow> 'a Cache" where
  "setExpiration now entry ttl c =
     c\<lparr>heap := (heap c)(entry := (heap c entry)\<lparr>Expiration :=
          (if ttl \<noteq> NoExpiration then expiration_after now ttl else NoExpiration)\<rparr>)\<rparr>"

text \<open>
  The part of SetWithTTL that follows the creation or the update of the entry: the
  expiration, the early return of a cache without bounds, the evictions, and the
  frequency of the entry under LeastFrequentUsed.
\<close>

definition SetWithTTL_bounds ::
  "(entry_ref set \<Rightarrow> entry_ref list) \<Rightarrow> (string \<Rightarrow> 'a val \<Rightarrow> int) \<Rightarrow> int \<Rightarrow> entry_ref
     \<Rightarrow> int \<Rightarrow> 'a Cache \<Rightarrow> (panic + 'a Cache) option" where
  "SetWithTTL_bounds ord sz now entry ttl c =
     (let c1 = setExpiration now entry ttl c
      in if maxSize c1 = NoMaxSize \<and> maxMemoryUsage c1 = NoMaxMemoryUsage then Some (Inr c1)
         else
           let c2 = (if maxSize c1 \<noteq> NoMaxSize \<and> int (Mapping.size (entries c1)) > maxSize c1
                     then evict ord sz c1 else c1)
           in case (if maxMemoryUsage c2 \<noteq> NoMaxMemoryUsage \<and> memoryUsage c2 > maxMemoryUsage c2
                    then evict_while_above ord sz c2 else Some c2) of
                None \<Rightarrow> None
              | Some c3 \<Rightarrow>
                  if evictionPolicy c3 = LeastFrequentUsed
                  then Some (incrementEntryFrequency entry c3)
                  else Some (Inr c3))"

text \<open>The branch of SetWithTTL that creates the entry of a key that is not in the cache:
  the new entry is linked in front of the head and added to the map.\<close>

definition createEntry ::
  "(string \<Rightarrow> 'a val \<Rightarrow> int) \<Rightarrow> int \<Rightarrow> string \<Rightarrow> 'a val \<Rightarrow> 'a Cache \<Rightarrow> entry_ref \<times> 'a Cache" where
  "createEntry sz now key v c =
     (let entry = nextRef c;
          c1 = c\<lparr>heap := (heap c)(entry :=
                 \<lparr>Key = key, Value = v, RelevantTimestamp = now, Expiration = 0,
                  next_entry = head c, previous = None, frequencyParent = None\<rparr>),
                nextRef := entry + 1\<rparr>;
          c2 = (case head c1 of None \<Rightarrow> c1\<lparr>tail := Some entry\<rparr>
                | Some h \<Rightarrow> c1\<lparr>heap := (heap c1)(h :=
                    (heap c1 h)\<lparr>previous := Some entry\<rparr>)\<rparr>);
          c3 = c2\<lparr>head := Some entry, entries := Mapping.update key entry (entries c2)\<rparr>
      in (entry, if maxMemoryUsage c3 \<noteq> NoMaxMemoryUsage
                 then c3\<lparr>memoryUsage := memoryUsage c3 + SizeInBytes sz (heap c3 entry)\<rparr>
                 else c3))"

text \<open>The branch of SetWithTTL that updates the entry of a key that is in the cache and
  moves it to the head.\<close>

definition updateEntry ::
  "(string \<Rightarrow> 'a val \<Rightarrow> int) \<Rightarrow> int \<Rightarrow> entry_ref \<Rightarrow> 'a val \<Rightarrow> 'a Cache \<Rightarrow> 'a Cache" where
  "updateEntry sz now entry v c =
     (let c1 = (if maxMemoryUsage c \<noteq> NoMaxMemoryUsage
                then c\<lparr>memoryUsage := memoryUsage c - SizeInBytes sz (heap c entry)\<rparr>
                else c);
          c2 = c1\<lparr>heap := (heap c1)(entry :=
                 (heap c1 entry)\<lparr>Value := v, RelevantTimestamp := now\<rparr>)\<rparr>;
          c3 = (if maxMemoryUsage c2 \<noteq> NoMaxMemoryUsage
                then c2\<lparr>memoryUsage := memoryUsage c2 + SizeInBytes sz (heap c2 entry)\<rparr>
                else c2)
      in moveExistingEntryToHead entry c3)"

definition SetWithTTL ::
  "(entry_ref set \<Rightarrow> entry_ref list) \<Rightarrow> (string \<Rightarrow> 'a val \<Rightarrow> int) \<Rightarrow> int \<Rightarrow> string
     \<Rightarrow> 'a val \<Rightarrow> int \<Rightarrow> 'a Cache \<Rightarrow> (panic + 'a Cache) option" where
  "SetWithTTL ord sz now key value0 ttl c =
     (let v = (if forceNilInterfaceOnNilPointer c \<and> value0 = NilPointer then Nil else value0)
      in case get key c of
           None \<Rightarrow>
             if ttl \<noteq> NoExpiration \<and> ttl < 1 then Some (Inr c)
             else (case createEntry sz now key v c of
                     (entry, c') \<Rightarrow> SetWithTTL_bounds ord sz now entry ttl c')
         | Some entry \<Rightarrow>
             if ttl \<noteq> NoExpiration \<and> ttl < 1
             then Some (map_sum id snd (delete sz key c))
             else SetWithTTL_bounds ord sz now entry ttl (updateEntry sz now entry v c))"

definition Set ::
  "(entry_ref set \<Rightarrow> entry_ref list) \<Rightarrow> (string \<Rightarrow> 'a val \<Rightarrow> int) \<Rightarrow> int \<Rightarrow> string
     \<Rightarrow> 'a val \<Rightarrow> 'a Cache \<Rightarrow> (panic + 'a Cache) option" where
  "Set ord sz now key v c = SetWithTTL ord sz now key v NoExpiration c"

text \<open>SetAll ranges over the map it is given; \<open>kvs\<close> lists that map in the order of the
  range. A panic or a Set that does not return ends the run.\<close>

fun SetAll ::
  "(entry_ref set \<Rightarrow> entry_ref list) \<Rightarrow> (string \<Rightarrow> 'a val \<Rightarrow> int) \<Rightarrow> int
     \<Rightarrow> (string \<times> 'a val) list \<Rightarrow> 'a Cache \<Rightarrow> (panic + 'a Cache) option" where
  "SetAll ord sz now [] c = Some (Inr c)"
| "SetAll ord sz now ((key, v) # kvs) c =
     (case SetWithTTL ord sz now key v NoExpiration c of
        None \<Rightarrow> None
      | Some (Inl p) \<Rightarrow> Some (Inl p)
      | Some (Inr c') \<Rightarrow> SetAll ord sz now kvs c')"

text \<open>Get returns the value and whether the key was found.\<close>

definition Get ::
  "(string \<Rightarrow> 'a val \<Rightarrow> int) \<Rightarrow> int \<Rightarrow> string \<Rightarrow> 'a Cache
     \<Rightarrow> panic + ('a val \<times> bool) \<times> 'a Cache" where
  "Get sz now key c =
     (case get key c of
        None \<Rightarrow> Inr ((Nil, False), c\<lparr>stats := (stats c)\<lparr>Misses := Misses (stats c) + 1\<rparr>\<rparr>)
      | Some entry \<Rightarrow>
          if Expired now (heap c entry)
          then (case delete sz key
                       (c\<lparr>stats := (stats c)\<lparr>ExpiredKeys := ExpiredKeys (stats c) + 1\<rparr>\<rparr>) of
                  Inl p \<Rightarrow> Inl p
                | Inr (_, c') \<Rightarrow> Inr ((Nil, False), c'))
          else
            let c1 = c\<lparr>stats := (stats c)\<lparr>Hits := Hits (stats c) + 1\<rparr>\<rparr>
            in if evictionPolicy c1 = LeastRecentlyUsed
               then let c2 = c1\<lparr>heap := (heap c1)(entry := Accessed now (heap c1 entry))\<rparr>
                    in if head c2 = Some entry then Inr ((Value (heap c2 entry), True), c2)
                       else let c3 = moveExistingEntryToHead entry c2
                            in Inr ((Value (heap c3 entry), True), c3)
               else if evictionPolicy c1 = LeastFrequentUsed
               then (case incrementEntryFrequency entry c1 of
                       Inl p \<Rightarrow> Inl p
                     | Inr c2 \<Rightarrow> Inr ((Value (heap c2 entry), True), c2))
               else Inr ((Value (heap c1 entry), True), c1))"

definition GetValue ::
  "(string \<Rightarrow> 'a val \<Rightarrow> int) \<Rightarrow> int \<Rightarrow> string \<Rightarrow> 'a Cache \<Rightarrow> panic + 'a val \<times> 'a Cache" where
  "GetValue sz now key c =
     (case Get sz now key c of Inl p \<Rightarrow> Inl p | Inr ((v, _), c') \<Rightarrow> Inr (v, c'))"

text \<open>GetByKeys returns the values by key; the result lists them in the order of \<open>keys\<close>,
  a later pair for a key replacing an earlier one.\<close>

fun GetByKeys ::
  "(string \<Rightarrow> 'a val \<Rightarrow> int) \<Rightarrow> int \<Rightarrow> string list \<Rightarrow> 'a Cache
     \<Rightarrow> panic + (string \<times> 'a val) list \<times> 'a Cache" where
  "GetByKeys sz now [] c = Inr ([], c)"
| "GetByKeys sz now (key # keys) c =
     (case Get sz now key c of
        Inl p \<Rightarrow> Inl p
      | Inr ((v, _), c') \<Rightarrow>
          (case GetByKeys sz now keys c' of
             Inl p \<Rightarrow> Inl p
           | Inr (res, c'') \<Rightarrow> Inr ((key, v) # res, c'')))"

text \<open>
  The range loop of GetAll over the entries of the cache; \<open>ks\<close> lists the keys in
  the order of the range. A key that the loop deleted is never produced again, so
  each key of the map is visited once.
\<close>

fun GetAll_loop ::
  "(string \<Rightarrow> 'a val \<Rightarrow> int) \<Rightarrow> int \<Rightarrow> string list \<Rightarrow> (string \<times> 'a val) list \<Rightarrow> 'a Cache
     \<Rightarrow> panic + (string \<times> 'a val) list \<times> 'a Cache" where
  "GetAll_loop sz now [] res c = Inr (res, c)"
| "GetAll_loop sz now (key # ks) res c =
     (case get key c of
        None \<Rightarrow> GetAll_loop sz now ks res c
      | Some entry \<Rightarrow>
          if Expired now (heap c entry)
          then (case delete sz key c of
                  Inl p \<Rightarrow> Inl p
                | Inr (_, c') \<Rightarrow> GetAll_loop sz now ks res c')
          else GetAll_loop sz now ks (res @ [(key, Value (heap c entry))]) c)"

definition GetAll ::
  "(string \<Rightarrow> 'a val \<Rightarrow> int) \<Rightarrow> int \<Rightarrow> string list \<Rightarrow> 'a Cache
     \<Rightarrow> panic + (string \<times> 'a val) list \<times> 'a Cache" where
  "GetAll sz now ks c =
     (case GetAll_loop sz now ks [] c of
        Inl p \<Rightarrow> Inl p
      | Inr (res, c') \<Rightarrow>
          Inr (res, c'\<lparr>stats := (stats c')\<lparr>Hits := Hits (stats c') + of_nat (length res)\<rparr>\<rparr>))"

text \<open>
  MatchPattern is declared in a file that is not among the sources; it is the
  parameter \<open>mp\<close>. \<open>ks\<close> lists the keys of the cache in the order of the range.
\<close>

fun GetKeysByPattern_loop ::
  "(string \<Rightarrow> string \<Rightarrow> bool) \<Rightarrow> int \<Rightarrow> string \<Rightarrow> int \<Rightarrow> string list \<Rightarrow> string list
     \<Rightarrow> 'a Cache \<Rightarrow> string list" where
  "GetKeysByPattern_loop mp now pattern limit [] matchingKeys c = matchingKeys"
| "GetKeysByPattern_loop mp now pattern limit (key # ks) matchingKeys c =
     (case get key c of
        None \<Rightarrow> GetKeysByPattern_loop mp now pattern limit ks matchingKeys c
      | Some entry \<Rightarrow>
          if Expired now (heap c entry)
          then GetKeysByPattern_loop mp now pattern limit ks matchingKeys c
          else if mp pattern key
          then let matchingKeys' = matchingKeys @ [key]
               in if limit > 0 \<and> int (length matchingKeys') \<ge> limit then matchingKeys'
                  else GetKeysByPattern_loop mp now pattern limit ks matchingKeys' c
          else GetKeysByPattern_loop mp now pattern limit ks matchingKeys c)"

definition GetKeysByPattern ::
  "(string \<Rightarrow> string \<Rightarrow> bool) \<Rightarrow> int \<Rightarrow> string list \<Rightarrow> string \<Rightarrow> int \<Rightarrow> 'a Cache
     \<Rightarrow> string list \<times> 'a Cache" where
  "GetKeysByPattern mp now ks pattern limit c =
     (GetKeysByPattern_loop mp now pattern limit ks [] c, c)"

definition Delete ::
  "(string \<Rightarrow> 'a val \<Rightarrow> int) \<Rightarrow> string \<Rightarrow> 'a Cache \<Rightarrow> panic + bool \<times> 'a Cache" where
  "Delete sz key c = delete sz key c"

fun DeleteAll_loop ::
  "(string \<Rightarrow> 'a val \<Rightarrow> int) \<Rightarrow> string list \<Rightarrow> int \<Rightarrow> 'a Cache \<Rightarrow> panic + int \<times> 'a Cache" where
  "DeleteAll_loop sz [] numberOfKeysDeleted c = Inr (numberOfKeysDeleted, c)"
| "DeleteAll_loop sz (key # keys) numberOfKeysDeleted c =
     (case delete sz key c of
        Inl p \<Rightarrow> Inl p
      | Inr (ok, c') \<Rightarrow>
          DeleteAll_loop sz keys (if ok then numberOfKeysDeleted + 1 else numberOfKeysDeleted) c')"

definition DeleteAll ::
  "(string \<Rightarrow> 'a val \<Rightarrow> int) \<Rightarrow> string list \<Rightarrow> 'a Cache \<Rightarrow> panic + int \<times> 'a Cache" where
  "DeleteAll sz keys c = DeleteAll_loop sz keys 0 c"

definition DeleteKeysByPattern ::
  "(string \<Rightarrow> string \<Rightarrow> bool) \<Rightarrow> (string \<Rightarrow> 'a val \<Rightarrow> int) \<Rightarrow> int \<Rightarrow> string list \<Rightarrow> string
     \<Rightarrow> 'a Cache \<Rightarrow> panic + int \<times> 'a Cache" where
  "DeleteKeysByPattern mp sz now ks pattern c =
     (case GetKeysByPattern mp now ks pattern 0 c of (keys, c') \<Rightarrow> DeleteAll sz keys c')"

definition Count :: "'a Cache \<Rightarrow> int" where
  "Count c = int (Mapping.size (entries c))"

definition Clear :: "'a Cache \<Rightarrow> 'a Cache" where
  "Clear c = c\<lparr>entries := Mapping.empty, memoryUsage := 0, head := None, tail := None\<rparr>"

definition TTL :: "int \<Rightarrow> string \<Rightarrow> 'a Cache \<Rightarrow> (cache_error + int) \<times> 'a Cache" where
  "TTL now key c =
     (case get key c of
        None \<Rightarrow> (Inl ErrKeyDoesNotExist, c)
      | Some entry \<Rightarrow>
          if Expiration (heap c entry) = NoExpiration then (Inl ErrKeyHasNoExpiration, c)
          else let timeUntilExpiration = time_Until now (Expiration (heap c entry))
               in if timeUntilExpiration < 0 then (Inl ErrKeyDoesNotExist, c)
                  else (Inr timeUntilExpiration, c))"

definition Expire :: "int \<Rightarrow> string \<Rightarrow> int \<Rightarrow> 'a Cache \<Rightarrow> bool \<times> 'a Cache" where
  "Expire now key ttl c =
     (case get key c of
        None \<Rightarrow> (False, c)
      | Some entry \<Rightarrow>
          if Expired now (heap c entry) then (False, c)
          else (True, setExpiration now entry ttl c))"

definition Stats :: "'a Cache \<Rightarrow> Statistics" where
  "Stats c = \<lparr>EvictedKeys = EvictedKeys (stats c), ExpiredKeys = ExpiredKeys (stats c),
              Hits = Hits (stats c), Misses = Misses (stats c)\<rparr>"

definition MemoryUsage :: "'a Cache \<Rightarrow> int" where
  "MemoryUsage c = memoryUsage c"

section \<open>Construction\<close>

definition WithMaxMemoryUsage :: "int \<Rightarrow> 'a Cache \<Rightarrow> 'a Cache" where
  "WithMaxMemoryUsage maxMemoryUsageInBytes c =
     c\<lparr>maxMemoryUsage :=
         (if maxMemoryUsageInBytes < 0 then NoMaxMemoryUsage else maxMemoryUsageInBytes)\<rparr>"

definition WithMaxSize :: "int \<Rightarrow> 'a Cache \<Rightarrow> 'a Cache" where
  "WithMaxSize n c =
     (let maxSize' = (if n < 0 then NoMaxSize else n);
          c1 = (if maxSize' \<noteq> NoMaxSize \<and> Count c = 0 then c\<lparr>entries := Mapping.empty\<rparr> else c)
      in c1\<lparr>maxSize := maxSize'\<rparr>)"

definition WithEvictionPolicy :: "EvictionPolicy \<Rightarrow> 'a Cache \<Rightarrow> 'a Cache" where
  "WithEvictionPolicy policy c =
     (let c1 = (if policy = LeastFrequentUsed then c\<lparr>freqs := []\<rparr> else c)
      in c1\<lparr>evictionPolicy := policy\<rparr>)"

definition WithForceNilInterfaceOnNilPointer :: "bool \<Rightarrow> 'a Cache \<Rightarrow> 'a Cache" where
  "WithForceNilInterfaceOnNilPointer b c = c\<lparr>forceNilInterfaceOnNilPointer := b\<rparr>"

text \<open>The stores start empty: no entry and no list element has been allocated.\<close>

definition NewCache :: "('a Cache \<Rightarrow> 'a Cache) list \<Rightarrow> 'a Cache" where
  "NewCache opts =
     fold (\<lambda>o' c. o' c) opts
       \<lparr>maxSize = DefaultMaxSize, maxMemoryUsage = NoMaxMemoryUsage,
        evictionPolicy = FirstInFirstOut,
        stats = \<lparr>EvictedKeys = 0, ExpiredKeys = 0, Hits = 0, Misses = 0\<rparr>,
        entries = Mapping.empty, head = None, tail = None, freqs = [], memoryUsage = 0,
        forceNilInterfaceOnNilPointer = True,
        heap = (\<lambda>_. \<lparr>Key = [], Value = Nil, RelevantTimestamp = 0, Expiration = 0,
                      next_entry = None, previous = None, frequencyParent = None\<rparr>),
        items = (\<lambda>_. \<lparr>Entries = {}, Freq = 0\<rparr>), nextRef = 0, nextElem = 0\<rparr>"

section \<open>Sequences of public operations\<close>

datatype 'a operation =
    OpSet string "'a val"
  | OpSetWithTTL string "'a val" int
  | OpSetAll "(string \<times> 'a val) list"
  | OpGet string
  | OpGetValue string
  | OpGetByKeys "string list"
  | OpGetAll "string list"
  | OpGetKeysByPattern "string list" string int
  | OpDelete string
  | OpDeleteAll "string list"
  | OpDeleteKeysByPattern "string list" string
  | OpCount
  | OpClear
  | OpTTL string
  | OpExpire string int
  | OpStats

text \<open>
  The state after one public operation called at the instant \<open>now\<close>; the value the
  operation returns is dropped. \<open>None\<close> is a call that never returns, \<open>Inl\<close> one that
  panics.
\<close>

fun perform ::
  "(entry_ref set \<Rightarrow> entry_ref list) \<Rightarrow> (string \<Rightarrow> 'a val \<Rightarrow> int) \<Rightarrow> (string \<Rightarrow> string \<Rightarrow> bool)
     \<Rightarrow> int \<Rightarrow> 'a operation \<Rightarrow> 'a Cache \<Rightarrow> (panic + 'a Cache) option" where
  "perform ord sz mp now (OpSet key v) c = Set ord sz now key v c"
| "perform ord sz mp now (OpSetWithTTL key v ttl) c = SetWithTTL ord sz now key v ttl c"
| "perform ord sz mp now (OpSetAll kvs) c = SetAll ord sz now kvs c"
| "perform ord sz mp now (OpGet key) c = Some (map_sum id snd (Get sz now key c))"
| "perform ord sz mp now (OpGetValue key) c = Some (map_sum id snd (GetValue sz now key c))"
| "perform ord sz mp now (OpGetByKeys keys) c = Some (map_sum id snd (GetByKeys sz now keys c))"
| "perform ord sz mp now (OpGetAll ks) c = Some (map_sum id snd (GetAll sz now ks c))"
| "perform ord sz mp now (OpGetKeysByPattern ks pattern limit) c =
     Some (Inr (snd (GetKeysByPattern mp now ks pattern limit c)))"
| "perform ord sz mp now (OpDelete key) c = Some (map_sum id snd (Delete sz key c))"
| "perform ord sz mp now (OpDeleteAll keys) c = Some (map_sum id snd (DeleteAll sz keys c))"
| "perform ord sz mp now (OpDeleteKeysByPattern ks pattern) c =
     Some (map_sum id snd (DeleteKeysByPattern mp sz now ks pattern c))"
| "perform ord sz mp now OpCount c = Some (Inr c)"
| "perform ord sz mp now OpClear c = Some (Inr (Clear c))"
| "perform ord sz mp now (OpTTL key) c = Some (Inr (snd (TTL now key c)))"
| "perform ord sz mp now (OpExpire key ttl) c = Some (Inr (snd (Expire now key ttl c)))"
| "perform ord sz mp now OpStats c = Some (Inr c)"

fun run ::
  "(entry_ref set \<Rightarrow> entry_ref list) \<Rightarrow> (string \<Rightarrow> 'a val \<Rightarrow> int) \<Rightarrow> (string \<Rightarrow> string \<Rightarrow> bool)
     \<Rightarrow> (int \<times> 'a operation) list \<Rightarrow> 'a Cache \<Rightarrow> (panic + 'a Cache) option" where
  "run ord sz mp [] c = Some (Inr c)"
| "run ord sz mp ((now, op) # ops) c =
     (case perform ord sz mp now op c of
        None \<Rightarrow> None
      | Some (Inl p) \<Rightarrow> Some (Inl p)
      | Some (Inr c') \<Rightarrow> run ord sz mp ops c')"

text \<open>One order of the range over a set of entries: ascending.\<close>

definition ascending :: "entry_ref set \<Rightarrow> entry_ref list" where
  "ascending S = sorted_list_of_set S"

text \<open>
  Modelled from the spec: the size estimator is not among the sources. A character
  sequence costs its length and the key contributes to the total.
\<close>

definition size_of :: "string \<Rightarrow> string val \<Rightarrow> int" where
  "size_of key v = int (length key) + (case v of Val s \<Rightarrow> int (length s) | _ \<Rightarrow> 0)"

text \<open>A pattern matcher for the runs below: the pattern that matches every key.\<close>

definition match_all :: "string \<Rightarrow> string \<Rightarrow> bool" where
  "match_all pattern key = True"

text \<open>The cache a run ends with, or \<open>d\<close> when the run panics or does not return.\<close>

definition final_state :: "(panic + 'a Cache) option \<Rightarrow> 'a Cache \<Rightarrow> 'a Cache" where
  "final_state r d = (case r of Some (Inr c) \<Rightarrow> c | _ \<Rightarrow> d)"

text \<open>A cache with default options that holds one key, set at instant 0 to expire at
  instant 100.\<close>

definition ttl_example :: "string Cache" where
  "ttl_example =
     final_state (run ascending size_of match_all
       [(0, OpSetWithTTL ''k'' (Val ''v'') 100)] (NewCache [])) (NewCache [])"

section \<open>Example caches\<close>

definition lfu_memory_cache :: "string Cache" where
  "lfu_memory_cache = NewCache [WithEvictionPolicy LeastFrequentUsed, WithMaxMemoryUsage 1]"

definition lfu_size_one :: "string Cache" where
  "lfu_size_one = NewCache [WithMaxSize 1, WithEvictionPolicy LeastFrequentUsed]"

definition lfu_unbounded :: "string Cache" where
  "lfu_unbounded = NewCache [WithMaxSize NoMaxSize, WithEvictionPolicy LeastFrequentUsed]"

definition lfu_memory_64 :: "string Cache" where
  "lfu_memory_64 = NewCache [WithEvictionPolicy LeastFrequentUsed, WithMaxMemoryUsage 64]"

section \<open>The recency chain\<close>

text \<open>The entries met by following the next pointers from \<open>p\<close>, at most \<open>n\<close> of them.\<close>

fun walk :: "(entry_ref \<Rightarrow> 'a Entry) \<Rightarrow> nat \<Rightarrow> entry_ref option \<Rightarrow> entry_ref list" where
  "walk h 0 p = []"
| "walk h (Suc n) None = []"
| "walk h (Suc n) (Some r) = r # walk h n (next_entry (h r))"

text \<open>The chain from the head; the walk is cut off one entry after the size of the map.\<close>

definition chain :: "'a Cache \<Rightarrow> entry_ref list" where
  "chain c = walk (heap c) (Suc (Mapping.size (entries c))) (head c)"

text \<open>
  The invariants of the recency chain: the head is absent exactly when the tail is, and
  exactly when the map is empty; the head has no previous neighbour and the tail no next
  one; the chain from the head has as many entries as the map, ends at the tail, and
  holds every entry of the map once.
\<close>

definition recency_chain_ok :: "'a Cache \<Rightarrow> bool" where
  "recency_chain_ok c \<longleftrightarrow>
     (head c = None \<longleftrightarrow> tail c = None)
     \<and> (tail c = None \<longleftrightarrow> Mapping.is_empty (entries c))
     \<and> (case head c of None \<Rightarrow> True | Some h \<Rightarrow> previous (heap c h) = None)
     \<and> (case tail c of None \<Rightarrow> True | Some t \<Rightarrow> next_entry (heap c t) = None)
     \<and> length (chain c) = Mapping.size (entries c)
     \<and> (case tail c of None \<Rightarrow> chain c = [] | Some t \<Rightarrow> chain c \<noteq> [] \<and> last (chain c) = t)
     \<and> distinct (chain c)
     \<and> set (chain c) = snd ` Mapping.entries (entries c)"

section \<open>The mutex\<close>

text \<open>
  The calls on the mutex of the cache and the accesses to the state it guards (the map,
  the chain, the frequency index, the memory counter, the statistics and the fields of
  the entries), in the order in which the body of each public operation makes them.
  SetAll and GetByKeys call SetWithTTL and Get once for each key; DeleteKeysByPattern
  calls GetKeysByPattern and then DeleteAll; TTL reads the expiration of the entry after
  RUnlock; Expire calls neither Lock nor RLock.
\<close>

datatype mutex_event = Lock | Unlock | RLock | RUnlock | Read | Write

fun mutex_events :: "'a operation \<Rightarrow> mutex_event list" where
  "mutex_events (OpSet key v) = [Lock, Read, Write, Unlock]"
| "mutex_events (OpSetWithTTL key v ttl) = [Lock, Read, Write, Unlock]"
| "mutex_events (OpSetAll kvs) = concat (map (\<lambda>_. [Lock, Read, Write, Unlock]) kvs)"
| "mutex_events (OpGet key) = [Lock, Read, Write, Unlock]"
| "mutex_events (OpGetValue key) = [Lock, Read, Write, Unlock]"
| "mutex_events (OpGetByKeys keys) = concat (map (\<lambda>_. [Lock, Read, Write, Unlock]) keys)"
| "mutex_events (OpGetAll ks) = [Lock, Read, Write, Unlock]"
| "mutex_events (OpGetKeysByPattern ks pattern limit) = [Lock, Read, Unlock]"
| "mutex_events (OpDelete key) = [Lock, Read, Write, Unlock]"
| "mutex_events (OpDeleteAll keys) = [Lock, Read, Write, Unlock]"
| "mutex_events (OpDeleteKeysByPattern ks pattern) =
     [Lock, Read, Unlock, Lock, Read, Write, Unlock]"
| "mutex_events OpCount = [RLock, Read, RUnlock]"
| "mutex_events OpClear = [Lock, Write, Unlock]"
| "mutex_events (OpTTL key) = [RLock, Read, RUnlock, Read]"
| "mutex_events (OpExpire key ttl) = [Read, Read, Write]"
| "mutex_events OpStats = [RLock, Read, RUnlock]"

datatype mutex_state = Free | Shared | Exclusive

text \<open>
  A sequence of events keeps the lock discipline from the mutex state \<open>m\<close> when every
  read happens while the caller holds the mutex, every write while it holds it in
  exclusive mode, and the mutex is free at the end.
\<close>

fun guarded :: "mutex_state \<Rightarrow> mutex_event list \<Rightarrow> bool" where
  "guarded m [] = (m = Free)"
| "guarded m (Lock # es) = (m = Free \<and> guarded Exclusive es)"
| "guarded m (Unlock # es) = (m = Exclusive \<and> guarded Free es)"
| "guarded m (RLock # es) = (m = Free \<and> guarded Shared es)"
| "guarded m (RUnlock # es) = (m = Shared \<and> guarded Free es)"
| "guarded m (Read # es) = (m \<noteq> Free \<and> guarded m es)"
| "guarded m (Write # es) = (m = Exclusive \<and> guarded m es)"

section \<open>TTL\<close>

lemma time_Until_past: "e < now \<Longrightarrow> time_Until now e < 0"
  by (simp add: time_Until_def)

text \<open>
  C8. TTL fails with ErrKeyDoesNotExist when the key is absent or its stored expiration
  lies in the past, fails with ErrKeyHasNoExpiration when the expiration is the never
  sentinel, and otherwise returns the expiration minus now; the cache is unchanged in
  every case. The clock reads an instant that is not before the Unix epoch and the
  stored expiration is an int64, so that the difference fits a Duration.
\<close>

theorem TTL_cases:
  assumes "0 \<le> now"
    and "case get key c of None \<Rightarrow> True | Some entry \<Rightarrow> Expiration (heap c entry) < 2 ^ 63"
  shows "snd (TTL now key c) = c \<and>
    fst (TTL now key c) =
      (case get key c of
         None \<Rightarrow> Inl ErrKeyDoesNotExist
       | Some entry \<Rightarrow>
           if Expiration (heap c entry) = NoExpiration then Inl ErrKeyHasNoExpiration
           else if Expiration (heap c entry) < now then Inl ErrKeyDoesNotExist
           else Inr (Expiration (heap c entry) - now))"
proof (cases "get key c")
  case None
  then show ?thesis by (simp add: TTL_def)
next
  case (Some entry)
  with assms(2) have bound: "Expiration (heap c entry) < 2 ^ 63" by simp
  show ?thesis
  proof (cases "Expiration (heap c entry) < now")
    case True
    with Some show ?thesis by (simp add: TTL_def Let_def time_Until_past)
  next
    case False
    with assms(1) bound
    have "time_Until now (Expiration (heap c entry)) = Expiration (heap c entry) - now"
      by (simp add: time_Until_def)
    with Some False show ?thesis by (simp add: TTL_def Let_def)
  qed
qed

theorem TTL_cases_witness:
  "(0::int) \<le> 40
   \<and> (case get ''k'' ttl_example of None \<Rightarrow> True
       | Some entry \<Rightarrow> Expiration (heap ttl_example entry) < 2 ^ 63)
   \<and> snd (TTL 40 ''k'' ttl_example) = ttl_example
   \<and> fst (TTL 40 ''k'' ttl_example) = Inr 60"
proof -
  have h1: "(0::int) \<le> 40" by simp
  have g: "get ''k'' ttl_example = Some 0" by code_simp
  have e: "Expiration (heap ttl_example 0) = 100" by code_simp
  have h2: "case get ''k'' ttl_example of None \<Rightarrow> True
            | Some entry \<Rightarrow> Expiration (heap ttl_example entry) < 2 ^ 63"
    by (simp add: g e)
  from TTL_cases [OF h1 h2] h1 h2 show ?thesis by (simp add: g e)
qed

section \<open>The statistics counters\<close>

lemma stats_removeExistingEntryReferences:
  "stats (removeExistingEntryReferences entry c) = stats c"
  by (simp add: removeExistingEntryReferences_def Let_def split: option.split)

lemma stats_removeEntryFromFrequencyList:
  "stats (removeEntryFromFrequencyList listItem item c) = stats c"
  by (simp add: removeEntryFromFrequencyList_def Remove_def Let_def)

lemma stats_delete: "delete sz key c = Inr (b, c') \<Longrightarrow> stats c' = stats c"
  by (auto simp: delete_def Let_def stats_removeExistingEntryReferences
      stats_removeEntryFromFrequencyList split: option.splits if_splits)

lemma stats_DeleteAll_loop:
  "DeleteAll_loop sz keys n c = Inr (m, c') \<Longrightarrow> stats c' = stats c"
proof (induction keys arbitrary: n c)
  case Nil
  then show ?case by simp
next
  case (Cons key keys)
  from Cons.prems obtain ok c1 where d: "delete sz key c = Inr (ok, c1)"
    and rest: "DeleteAll_loop sz keys (if ok then n + 1 else n) c1 = Inr (m, c')"
    by (auto split: sum.splits)
  from Cons.IH [OF rest] stats_delete [OF d] show ?case by simp
qed

lemma stats_GetAll_loop:
  "GetAll_loop sz now ks res c = Inr (res', c') \<Longrightarrow> stats c' = stats c"
proof (induction ks arbitrary: res c)
  case Nil
  then show ?case by simp
next
  case (Cons key ks)
  show ?case
  proof (cases "get key c")
    case None
    with Cons show ?thesis by simp
  next
    case (Some entry)
    show ?thesis
    proof (cases "Expired now (heap c entry)")
      case True
      with Some Cons.prems obtain ok c1 where d: "delete sz key c = Inr (ok, c1)"
        and rest: "GetAll_loop sz now ks res c1 = Inr (res', c')"
        by (auto split: sum.splits)
      from Cons.IH [OF rest] stats_delete [OF d] show ?thesis by simp
    next
      case False
      with Some Cons show ?thesis by simp
    qed
  qed
qed

text \<open>
  C10. Delete, DeleteAll, DeleteKeysByPattern, Clear and Expire leave the four counters
  as they are. GetAll changes only the hits counter, also when it deletes expired
  entries, whereas Get adds one to the expired counter when it deletes an expired entry.
\<close>

theorem statistics_frame:
  "(Delete sz key c = Inr (b, c1) \<longrightarrow> stats c1 = stats c)
   \<and> (DeleteAll sz keys c = Inr (n, c2) \<longrightarrow> stats c2 = stats c)
   \<and> (DeleteKeysByPattern mp sz now ks pattern c = Inr (m, c3) \<longrightarrow> stats c3 = stats c)
   \<and> stats (Clear c) = stats c
   \<and> stats (snd (Expire now key ttl c)) = stats c
   \<and> (GetAll sz now ks c = Inr (res, c4) \<longrightarrow>
        stats c4 = (stats c)\<lparr>Hits := Hits (stats c) + of_nat (length res)\<rparr>)
   \<and> (get key c = Some entry \<and> Expired now (heap c entry) \<and> Get sz now key c = Inr (r, c5) \<longrightarrow>
        stats c5 = (stats c)\<lparr>ExpiredKeys := ExpiredKeys (stats c) + 1\<rparr>)"
proof (intro conjI impI)
  show "stats c1 = stats c" if "Delete sz key c = Inr (b, c1)"
    using that by (simp add: Delete_def stats_delete)
  show "stats c2 = stats c" if "DeleteAll sz keys c = Inr (n, c2)"
    using that by (simp add: DeleteAll_def stats_DeleteAll_loop)
  show "stats c3 = stats c" if "DeleteKeysByPattern mp sz now ks pattern c = Inr (m, c3)"
    using that
    by (simp add: DeleteKeysByPattern_def GetKeysByPattern_def DeleteAll_def stats_DeleteAll_loop)
  show "stats (Clear c) = stats c"
    by (simp add: Clear_def)
  show "stats (snd (Expire now key ttl c)) = stats c"
    by (simp add: Expire_def setExpiration_def split: option.split)
  show "stats c4 = (stats c)\<lparr>Hits := Hits (stats c) + of_nat (length res)\<rparr>"
    if "GetAll sz now ks c = Inr (res, c4)"
  proof -
    from that obtain c' where l: "GetAll_loop sz now ks [] c = Inr (res, c')"
      and c4: "c4 = c'\<lparr>stats := (stats c')\<lparr>Hits := Hits (stats c') + of_nat (length res)\<rparr>\<rparr>"
      by (auto simp: GetAll_def split: sum.splits)
    from stats_GetAll_loop [OF l] c4 show ?thesis by simp
  qed
  show "stats c5 = (stats c)\<lparr>ExpiredKeys := ExpiredKeys (stats c) + 1\<rparr>"
    if "get key c = Some entry \<and> Expired now (heap c entry) \<and> Get sz now key c = Inr (r, c5)"
  proof -
    let ?c = "c\<lparr>stats := (stats c)\<lparr>ExpiredKeys := ExpiredKeys (stats c) + 1\<rparr>\<rparr>"
    from that have g: "get key c = Some entry" and e: "Expired now (heap c entry)"
      and G: "Get sz now key c = Inr (r, c5)" by blast+
    from G have "(case delete sz key ?c of Inl p \<Rightarrow> Inl p
        | Inr (u, c') \<Rightarrow> Inr ((Nil, False), c')) = Inr (r, c5)"
      by (simp add: Get_def g e)
    then obtain ok where "delete sz key ?c = Inr (ok, c5)"
      by (cases "delete sz key ?c") auto
    from stats_delete [OF this] show ?thesis by simp
  qed
qed

lemma Inr_projr: "\<not> isl x \<Longrightarrow> x = Inr (fst (projr x), snd (projr x))"
  by (cases x) simp_all

theorem statistics_frame_witness:
  "Delete size_of ''k'' ttl_example
     = Inr (True, snd (projr (Delete size_of ''k'' ttl_example)))
   \<and> stats (snd (projr (Delete size_of ''k'' ttl_example))) = stats ttl_example
   \<and> DeleteAll size_of [''k'', ''j''] ttl_example
     = Inr (1, snd (projr (DeleteAll size_of [''k'', ''j''] ttl_example)))
   \<and> stats (snd (projr (DeleteAll size_of [''k'', ''j''] ttl_example))) = stats ttl_example
   \<and> DeleteKeysByPattern match_all size_of 50 [''k''] ''*'' ttl_example
     = Inr (1, snd (projr (DeleteKeysByPattern match_all size_of 50 [''k''] ''*'' ttl_example)))
   \<and> stats (snd (projr (DeleteKeysByPattern match_all size_of 50 [''k''] ''*'' ttl_example)))
     = stats ttl_example
   \<and> GetAll size_of 200 [''k''] ttl_example
     = Inr ([], snd (projr (GetAll size_of 200 [''k''] ttl_example)))
   \<and> Count (snd (projr (GetAll size_of 200 [''k''] ttl_example))) = 0
   \<and> stats (snd (projr (GetAll size_of 200 [''k''] ttl_example))) = stats ttl_example
   \<and> get ''k'' ttl_example = Some 0 \<and> Expired 200 (heap ttl_example 0)
   \<and> Get size_of 200 ''k'' ttl_example
     = Inr ((Nil, False), snd (projr (Get size_of 200 ''k'' ttl_example)))
   \<and> ExpiredKeys (stats (snd (projr (Get size_of 200 ''k'' ttl_example)))) = 1"
proof -
  let ?D = "Delete size_of ''k'' ttl_example"
  let ?A = "DeleteAll size_of [''k'', ''j''] ttl_example"
  let ?P = "DeleteKeysByPattern match_all size_of 50 [''k''] ''*'' ttl_example"
  let ?L = "GetAll size_of 200 [''k''] ttl_example"
  let ?G = "Get size_of 200 ''k'' ttl_example"
  have "\<not> isl ?D" and "fst (projr ?D) = True" by code_simp+
  with Inr_projr [of ?D] have d: "?D = Inr (True, snd (projr ?D))" by simp
  have "\<not> isl ?A" and "fst (projr ?A) = 1" by code_simp+
  with Inr_projr [of ?A] have a: "?A = Inr (1, snd (projr ?A))" by simp
  have "\<not> isl ?P" and "fst (projr ?P) = 1" by code_simp+
  with Inr_projr [of ?P] have p: "?P = Inr (1, snd (projr ?P))" by simp
  have "\<not> isl ?L" and "fst (projr ?L) = []" by code_simp+
  with Inr_projr [of ?L] have l: "?L = Inr ([], snd (projr ?L))" by simp
  have "\<not> isl ?G" and "fst (projr ?G) = (Nil, False)" by code_simp+
  with Inr_projr [of ?G] have g: "?G = Inr ((Nil, False), snd (projr ?G))" by simp
  have k: "get ''k'' ttl_example = Some 0" and e: "Expired 200 (heap ttl_example 0)"
    by code_simp+
  have n: "Count (snd (projr ?L)) = 0" by code_simp
  have x: "ExpiredKeys (stats ttl_example) = 0" by code_simp
  note frame = statistics_frame [where sz = size_of and key = "''k''" and c = ttl_example
      and b = True and ?c1.0 = "snd (projr ?D)"
      and keys = "[''k'', ''j'']" and n = 1 and ?c2.0 = "snd (projr ?A)"
      and mp = match_all and now = 200 and ks = "[''k'']" and res = "[]"
      and ?c4.0 = "snd (projr ?L)" and entry = 0 and r = "(Nil, False)"
      and ?c5.0 = "snd (projr ?G)"]
  note frame_pattern = statistics_frame [where sz = size_of and c = ttl_example
      and mp = match_all and now = 50 and ks = "[''k'']" and pattern = "''*''" and m = 1
      and ?c3.0 = "snd (projr ?P)"]
  from frame frame_pattern d a p l g k e n x show ?thesis by simp
qed

section \<open>Termination of SetWithTTL\<close>

lemma evict_LFU_no_item:
  "evictionPolicy c = LeastFrequentUsed \<Longrightarrow> freqs c = [] \<Longrightarrow> evict ord sz c = c"
  by (simp add: evict_def Front_def)

lemma evict_while_above_stuck:
  assumes same: "evict ord sz c = c"
    and above: "memoryUsage c > maxMemoryUsage c"
    and nonempty: "Mapping.size (entries c) > 0"
  shows "evict_while_above ord sz c = None"
proof (rule ccontr)
  assume "evict_while_above ord sz c \<noteq> None"
  then obtain y where y: "evict_while_above ord sz c = Some y" by blast
  have no: "\<not> (o' = ord \<and> s' = sz \<and> x = c)" if run: "evict_while_above o' s' x = Some z" for o' s' x z
  proof (rule evict_while_above.raw_induct
      [where P = "\<lambda>a b d w. \<not> (a = ord \<and> b = sz \<and> d = c)", OF _ run])
    fix f a b d w
    assume IH: "\<And>a b d w. f a b d = Some w \<Longrightarrow> \<not> (a = ord \<and> b = sz \<and> d = c)"
      and step: "(if maxMemoryUsage d < memoryUsage d \<and> 0 < Mapping.size (entries d)
                  then f a b (evict a b d) else Some d) = Some w"
    show "\<not> (a = ord \<and> b = sz \<and> d = c)"
    proof
      assume "a = ord \<and> b = sz \<and> d = c"
      with step above nonempty same have "f ord sz c = Some w" by simp
      from IH [OF this] show False by simp
    qed
  qed
  from no [OF y] show False by simp
qed


lemma createEntry_fields:
  "evictionPolicy (snd (createEntry sz now key v c)) = evictionPolicy c"
  "freqs (snd (createEntry sz now key v c)) = freqs c"
  "maxMemoryUsage (snd (createEntry sz now key v c)) = maxMemoryUsage c"
  "maxSize (snd (createEntry sz now key v c)) = maxSize c"
  "entries (snd (createEntry sz now key v c)) = Mapping.update key (nextRef c) (entries c)"
  "memoryUsage (snd (createEntry sz now key v c)) =
     (if maxMemoryUsage c \<noteq> NoMaxMemoryUsage then memoryUsage c + sz key v else memoryUsage c)"
  by (simp_all add: createEntry_def Let_def SizeInBytes_def split: option.split)

lemma setExpiration_fields:
  "evictionPolicy (setExpiration now entry ttl c) = evictionPolicy c"
  "freqs (setExpiration now entry ttl c) = freqs c"
  "maxMemoryUsage (setExpiration now entry ttl c) = maxMemoryUsage c"
  "maxSize (setExpiration now entry ttl c) = maxSize c"
  "entries (setExpiration now entry ttl c) = entries c"
  "memoryUsage (setExpiration now entry ttl c) = memoryUsage c"
  by (simp_all add: setExpiration_def)

lemma SetWithTTL_bounds_diverges:
  assumes "evictionPolicy c = LeastFrequentUsed" and "freqs c = []"
    and "0 < maxMemoryUsage c" and "maxMemoryUsage c < memoryUsage c"
    and "0 < Mapping.size (entries c)"
    and "maxSize c = NoMaxSize \<or> int (Mapping.size (entries c)) \<le> maxSize c"
  shows "SetWithTTL_bounds ord sz now entry ttl c = None"
proof -
  let ?c1 = "setExpiration now entry ttl c"
  have "evict_while_above ord sz ?c1 = None"
  proof (rule evict_while_above_stuck)
    show "evict ord sz ?c1 = ?c1"
      using assms(1,2) by (intro evict_LFU_no_item) (simp_all add: setExpiration_fields)
    show "maxMemoryUsage ?c1 < memoryUsage ?c1" using assms(4) by (simp add: setExpiration_fields)
    show "0 < Mapping.size (entries ?c1)" using assms(5) by (simp add: setExpiration_fields)
  qed
  with assms(3,4,6) show ?thesis
    by (auto simp: SetWithTTL_bounds_def Let_def setExpiration_fields)
qed

lemma new_entry_diverges:
  assumes "evictionPolicy c = LeastFrequentUsed" and "freqs c = []"
    and "get key c = None" and "ttl = NoExpiration \<or> 0 < ttl"
    and "0 < maxMemoryUsage c"
    and "maxMemoryUsage c < memoryUsage c
           + sz key (if forceNilInterfaceOnNilPointer c \<and> v = NilPointer then Nil else v)"
    and "maxSize c = NoMaxSize \<or> int (Mapping.size (entries c)) < maxSize c"
    and "finite (Mapping.keys (entries c))"
  shows "SetWithTTL ord sz now key v ttl c = None"
proof -
  let ?v = "if forceNilInterfaceOnNilPointer c \<and> v = NilPointer then Nil else v"
  obtain entry c' where ce: "createEntry sz now key ?v c = (entry, c')"
    by (cases "createEntry sz now key ?v c")
  then have c': "c' = snd (createEntry sz now key ?v c)" by simp
  from assms(3) have "key \<notin> Mapping.keys (entries c)"
    by (simp add: get_def keys_dom_lookup domIff)
  with assms(8) have size': "Mapping.size (entries c') = Mapping.size (entries c) + 1"
    unfolding c' createEntry_fields by (simp add: size_update)
  have "SetWithTTL_bounds ord sz now entry ttl c' = None"
  proof (rule SetWithTTL_bounds_diverges)
    show "evictionPolicy c' = LeastFrequentUsed" "freqs c' = []"
      using assms(1,2) unfolding c' createEntry_fields by simp_all
    show "0 < maxMemoryUsage c'" using assms(5) unfolding c' createEntry_fields by simp
    show "maxMemoryUsage c' < memoryUsage c'"
      using assms(5,6) unfolding c' createEntry_fields by simp
    show "0 < Mapping.size (entries c')" using size' by simp
    show "maxSize c' = NoMaxSize \<or> int (Mapping.size (entries c')) \<le> maxSize c'"
      using assms(7) size' unfolding c' createEntry_fields(4) by auto
  qed
  with assms(3,4) ce show ?thesis
    by (auto simp: SetWithTTL_def Let_def)
qed

text \<open>
  C1. SetWithTTL does not terminate for every configuration. Under LeastFrequentUsed
  with a memory bound, the first Set of an entry that is larger than the bound never
  leaves the eviction loop: the frequency index is still empty, so evict removes
  nothing, while the memory usage stays above the bound and the map holds the new entry.
  This holds for every order of the range and every reading of the clock.
\<close>

theorem Set_never_returns_LFU_memory:
  "Set ord size_of now ''a'' (Val ''value'') lfu_memory_cache = None"
  unfolding Set_def
proof (rule new_entry_diverges)
  show "evictionPolicy lfu_memory_cache = LeastFrequentUsed" by code_simp
  show "freqs lfu_memory_cache = []" by code_simp
  show "get ''a'' lfu_memory_cache = None" by code_simp
  show "NoExpiration = NoExpiration \<or> 0 < NoExpiration" by simp
  show "0 < maxMemoryUsage lfu_memory_cache" by code_simp
  have "maxMemoryUsage lfu_memory_cache = 1" "memoryUsage lfu_memory_cache = 0" by code_simp+
  then show "maxMemoryUsage lfu_memory_cache < memoryUsage lfu_memory_cache +
     size_of ''a'' (if forceNilInterfaceOnNilPointer lfu_memory_cache \<and> Val ''value'' = NilPointer
       then Nil else Val ''value'')"
    by (simp add: size_of_def)
  show "maxSize lfu_memory_cache = NoMaxSize \<or>
     int (Mapping.size (entries lfu_memory_cache)) < maxSize lfu_memory_cache" by code_simp
  show "finite (Mapping.keys (entries lfu_memory_cache))"
    by (simp add: lfu_memory_cache_def NewCache_def WithEvictionPolicy_def WithMaxMemoryUsage_def)
qed


section \<open>Runs that break the bounds and the invariants\<close>

text \<open>
  C2. The size bound fails under LeastFrequentUsed after Clear, which leaves the
  frequency index as it was: with a maximum size of 1, the Set of a third key evicts
  only an entry that Clear had already dropped, and the cache holds two entries.
\<close>

theorem Count_exceeds_maxSize_after_Clear:
  "map_option (map_sum id (\<lambda>c. (maxSize c, Count c)))
     (run ascending size_of match_all
        [(0, OpSet ''a'' (Val ''v'')), (1, OpClear), (2, OpSet ''b'' (Val ''v'')),
         (3, OpGet ''b''), (4, OpSet ''c'' (Val ''v''))] lfu_size_one)
   = Some (Inr (1, 2))"
  by code_simp

text \<open>
  C3. Get on a present but expired key does not return not-found in every state: under
  LeastFrequentUsed on a cache without bounds, SetWithTTL returns before it records the
  frequency of the entry, and the Get that finds the entry expired panics in delete.
\<close>

theorem Get_expired_panics_LFU_unbounded:
  "map_option (map_sum id (\<lambda>c. map_sum id fst (Get size_of 20 ''k'' c)))
     (run ascending size_of match_all [(0, OpSetWithTTL ''k'' (Val ''v'') 10)] lfu_unbounded)
   = Some (Inr (Inl NilPointerDereference))"
  by code_simp

text \<open>
  C4. SetWithTTL with a TTL of 0 on an existing key is not a delete without error in
  every state: under LeastFrequentUsed on a cache without bounds the entry has no
  frequency item, and the call panics in delete.
\<close>

theorem SetWithTTL_zero_panics_LFU_unbounded:
  "map_option (map_sum id Count)
     (run ascending size_of match_all
        [(0, OpSetWithTTL ''k'' (Val ''v'') NoExpiration), (1, OpSetWithTTL ''k'' (Val ''v'') 0)]
        lfu_unbounded)
   = Some (Inl NilPointerDereference)"
  by code_simp

text \<open>
  C5. The memory bound fails under LeastFrequentUsed after Clear: the Set of a large
  value for a key that Clear had dropped evicts the stale entry of that key, which
  removes the new entry from the map, and returns with no entry in the cache and a
  memory usage of 99 above the bound of 64.
\<close>

theorem memory_above_bound_with_empty_cache:
  "map_option (map_sum id (\<lambda>c. (maxMemoryUsage c, MemoryUsage c, Count c)))
     (run ascending size_of match_all
        [(0, OpSet ''a'' (Val ''v'')), (1, OpClear),
         (2, OpSet ''a'' (Val (replicate 100 (CHR ''0''))))] lfu_memory_64)
   = Some (Inr (64, 99, 0))"
  by code_simp

text \<open>
  C6. The invariants of the recency chain fail under LeastFrequentUsed after Clear: the
  eviction of the stale entry of key a removes the new entry of key a from the map but
  not from the chain, so the map holds one entry while the chain holds two and ends at
  an entry that is not in the map.
\<close>

theorem chain_longer_than_map_after_Clear:
  "map_option (map_sum id
       (\<lambda>c. (recency_chain_ok c, Count c, chain c, tail c, get ''a'' c, get ''b'' c)))
     (run ascending size_of match_all
        [(0, OpSet ''a'' (Val ''v'')), (1, OpClear), (2, OpSet ''a'' (Val ''v'')),
         (3, OpGet ''a''), (4, OpSet ''b'' (Val ''v''))] lfu_size_one)
   = Some (Inr (False, 1, [2, 1], Some 1, None, Some 2))"
  by code_simp

text \<open>
  C7. Under LeastFrequentUsed on a cache without bounds, an entry that was created and
  then updated by Set is in the map but points to no frequency item, and the frequency
  index is empty.
\<close>

theorem touched_entry_without_frequency_item:
  "map_option (map_sum id
       (\<lambda>c. (evictionPolicy c, get ''k'' c, Value (heap c 0), frequencyParent (heap c 0),
             freqs c)))
     (run ascending size_of match_all
        [(0, OpSet ''k'' (Val ''v'')), (1, OpSet ''k'' (Val ''w''))] lfu_unbounded)
   = Some (Inr (LeastFrequentUsed, Some 0, Val ''w'', None, []))"
  by code_simp

section \<open>The lock discipline\<close>

text \<open>
  C9. Expire does not acquire the mutex: it reads the map and the entry and writes the
  expiration of the entry while the mutex is free.
\<close>

theorem Expire_not_guarded: "guarded Free (mutex_events (OpExpire key ttl)) = False"
  by simp

end
